theory Spec2Isabelle
  imports Main "HOL-Library.Word" "HOL-Library.Sublist"
begin

section \<open>Data model of read.go\<close>

text \<open>
  Go's \<open>int64\<close> is a 64-bit word; \<open>+\<close> and \<open>-\<close> wrap around as in Go, \<open>sint\<close> reads the
  signed value. Go's \<open>int\<close> is taken at its 64-bit width (the width on every 64-bit
  platform). A Go \<open>string\<close> or \<open>[]byte\<close> is a list of bytes, \<open>string\<close> in HOL.
\<close>

type_synonym int64 = "64 word"

text \<open>
  Errors as values. \<open>New m\<close> is \<open>errors.New(m)\<close>; \<open>Errorf m c\<close> is
  \<open>fmt.Errorf(m + ": %w", c)\<close> with the wrapped cause \<open>c\<close> (\<open>None\<close> where the code
  wraps a nil error); \<open>ErrSyntax\<close> and \<open>ErrRange\<close> are the two causes of strconv's
  NumError; \<open>ErrTooLong\<close> is bufio.ErrTooLong; \<open>EOF\<close> is io.EOF;
  \<open>ErrNegativeOffset\<close> is the error of \<open>os.File.ReadAt\<close> for a negative offset.
  \<open>PanicIndex i n\<close> is not a returned error: it is the run-time panic
  "index out of range [i] with length n".
\<close>

datatype error =
    EOF
  | ErrNegativeOffset
  | ErrTooLong
  | ErrSyntax
  | ErrRange
  | New string
  | Errorf string "error option"
  | PanicIndex nat nat

record XrefEntry =
  ByteOffset :: int64
  Number :: int64
  Generation :: int64
  InUse :: bool

record Trailer =
  StartXref :: int64
  Size :: int64
  Raw :: string
  ra :: string

text \<open>The zero value \<open>XrefEntry{}\<close>.\<close>

definition XrefEntry_zero :: XrefEntry where
  "XrefEntry_zero = \<lparr>ByteOffset = 0, Number = 0, Generation = 0, InUse = False\<rparr>"

section \<open>The standard library functions the code calls\<close>

subsection \<open>strings and bytes\<close>

definition HasPrefix :: "string \<Rightarrow> string \<Rightarrow> bool" where
  "HasPrefix s p = prefix p s"

definition HasSuffix :: "string \<Rightarrow> string \<Rightarrow> bool" where
  "HasSuffix s p = suffix p s"

text \<open>
  \<open>strings.Index\<close> and \<open>bytes.Index\<close>: the index of the first occurrence of \<open>sub\<close>,
  or \<open>-1\<close>.
\<close>

fun Index :: "string \<Rightarrow> string \<Rightarrow> int" where
  "Index [] sub = (if sub = [] then 0 else - 1)"
| "Index (c # cs) sub =
     (if prefix sub (c # cs) then 0
      else (let r = Index cs sub in if r < 0 then - 1 else r + 1))"

text \<open>
  \<open>strings.SplitN(s, sep, n)\<close> for a one-byte separator: at most \<open>n\<close> pieces, the last
  one the unsplit rest; \<open>n = 0\<close> gives no piece.
\<close>

fun SplitN :: "string \<Rightarrow> char \<Rightarrow> nat \<Rightarrow> string list" where
  "SplitN s sep 0 = []"
| "SplitN s sep (Suc 0) = [s]"
| "SplitN s sep (Suc (Suc n)) =
     (if sep \<in> set s
      then takeWhile (\<lambda>c. c \<noteq> sep) s # SplitN (tl (dropWhile (\<lambda>c. c \<noteq> sep) s)) sep (Suc n)
      else [s])"

text \<open>
  \<open>strings.EqualFold(s, t)\<close> for an ASCII \<open>t\<close> without the letters k and s (the only
  ASCII letters whose Unicode case orbit leaves ASCII), as in \<open>"endobj"\<close>: equal
  lengths, and byte by byte equal up to the case of the letters A to Z.
\<close>

definition toLower :: "char \<Rightarrow> char" where
  "toLower c = (if 65 \<le> (of_char c :: int) \<and> (of_char c :: int) \<le> 90
                then char_of ((of_char c :: int) + 32) else c)"

definition EqualFold :: "string \<Rightarrow> string \<Rightarrow> bool" where
  "EqualFold s t = (map toLower s = map toLower t)"

subsection \<open>strconv\<close>

text \<open>
  \<open>strconv.ParseUint(s, 10, 64)\<close>: every byte a decimal digit (no sign, no
  underscore), the value below \<open>2 ^ 64\<close> (an unbounded \<open>int\<close> here, with the two
  overflow checks of the source). The loop reads the bytes left to right and
  stops at the first byte that is no digit (syntax error) or at the first overflow
  (range error), whichever comes first.
\<close>

definition isDigit :: "char \<Rightarrow> bool" where
  "isDigit c = (48 \<le> (of_char c :: int) \<and> (of_char c :: int) \<le> 57)"

definition digitVal :: "char \<Rightarrow> int" where
  "digitVal c = (of_char c :: int) - 48"

fun ParseUint_loop :: "int \<Rightarrow> string \<Rightarrow> error + int" where
  "ParseUint_loop n [] = Inr n"
| "ParseUint_loop n (c # cs) =
     (if \<not> isDigit c then Inl ErrSyntax
      else if n \<ge> (2 ^ 64 - 1) div 10 + 1 then Inl ErrRange
      else (let n1 = n * 10 + digitVal c in
            if n1 > 2 ^ 64 - 1 then Inl ErrRange else ParseUint_loop n1 cs))"

definition ParseUint :: "string \<Rightarrow> error + int" where
  "ParseUint s = (if s = [] then Inl ErrSyntax else ParseUint_loop 0 s)"

text \<open>
  \<open>strconv.ParseInt(s, 10, 64)\<close>: an optional sign, then ParseUint; a syntax error is
  passed on, a value outside the signed 64-bit range is a range error.
\<close>

definition ParseInt :: "string \<Rightarrow> error + int64" where
  "ParseInt s =
     (if s = [] then Inl ErrSyntax
      else (let neg = (hd s = CHR ''-'');
                s' = (if hd s = CHR ''+'' \<or> hd s = CHR ''-'' then tl s else s)
            in case ParseUint s' of
                 Inl ErrSyntax \<Rightarrow> Inl ErrSyntax
               | Inl e \<Rightarrow> Inl ErrRange
               | Inr un \<Rightarrow>
                   if \<not> neg \<and> un \<ge> 2 ^ 63 then Inl ErrRange
                   else if neg \<and> un > 2 ^ 63 then Inl ErrRange
                   else Inr (if neg then - word_of_int un else word_of_int un)))"

text \<open>
  \<open>strconv.Atoi(s)\<close> is \<open>ParseInt(s, 10, 0)\<close> converted to \<open>int\<close> (its fast path for
  short strings computes the same value), here at 64 bits.
\<close>

definition Atoi :: "string \<Rightarrow> error + int64" where
  "Atoi s = ParseInt s"

subsection \<open>io.ReaderAt on a file, and AtReader\<close>

text \<open>
  The \<open>io.ReaderAt\<close> that main passes is an \<open>*os.File\<close>; it is modelled by the bytes
  of the file. \<open>ReadAt f n off\<close> is \<open>f.ReadAt(p, off)\<close> with \<open>len(p) = n\<close>: a negative
  offset is an error; otherwise the bytes from \<open>off\<close> on, at most \<open>n\<close>, with io.EOF
  when fewer than \<open>n\<close> are left. Failures of the device are outside the model.
\<close>

definition ReadAt :: "string \<Rightarrow> nat \<Rightarrow> int64 \<Rightarrow> string \<times> error option" where
  "ReadAt f n off =
     (if sint off < 0 then ([], Some ErrNegativeOffset)
      else (let bs = take n (drop (nat (sint off)) f)
            in (bs, if length bs < n then Some EOF else None)))"

record AtReader =
  at_ra :: string
  at_offset :: int64

definition NewAtReader :: "string \<Rightarrow> int64 \<Rightarrow> AtReader" where
  "NewAtReader f off = \<lparr>at_ra = f, at_offset = off\<rparr>"

text \<open>\<open>(ar *AtReader) Read(p)\<close> with \<open>len(p) = n\<close>: the bytes, the error, the reader after.\<close>

definition AtReader_Read :: "AtReader \<Rightarrow> nat \<Rightarrow> string \<times> error option \<times> AtReader" where
  "AtReader_Read ar n =
     (case ReadAt (at_ra ar) n (at_offset ar) of
        (bs, err) \<Rightarrow>
          if err \<noteq> None \<and> err \<noteq> Some EOF then (bs, err, ar)
          else (bs, err, ar\<lparr>at_offset := at_offset ar + word_of_nat (length bs)\<rparr>))"

text \<open>
  What a consumer that reads an AtReader to its end receives: all the bytes from the
  offset to the end of the file and then io.EOF (\<open>None\<close> here), or, for a negative
  offset, no byte and the error of the first read.
\<close>

definition AtReader_stream :: "AtReader \<Rightarrow> string \<times> error option" where
  "AtReader_stream ar =
     (if sint (at_offset ar) < 0 then ([], Some ErrNegativeOffset)
      else (drop (nat (sint (at_offset ar))) (at_ra ar), None))"

subsection \<open>bufio.Scanner\<close>

text \<open>
  A \<open>bufio.Scanner\<close> with the default split function \<open>ScanLines\<close> and the default
  buffer limit. \<open>lines_of\<close> cuts the input after each newline; a last line without
  newline counts when it is not empty. Each call of \<open>Scan\<close> delivers the next line
  with one trailing carriage return dropped. A line of \<open>MaxScanTokenSize\<close> bytes or
  more does not fit the buffer: \<open>Scan\<close> returns false there and \<open>Err\<close> reports
  \<open>ErrTooLong\<close>. At the end of the input \<open>Scan\<close> returns false and \<open>Err\<close> reports nil,
  or the reader's error when it is not io.EOF. After \<open>Scan\<close> has returned false,
  \<open>Text\<close> is the empty string. The scanner is modelled by what it will deliver:
  \<open>NewScanner r = (ls, e)\<close> holds the lines \<open>ls\<close> of the successive successful
  calls of \<open>Scan\<close> and the value \<open>e\<close> of \<open>Err\<close> after the call that returns false
  (\<open>Err\<close> is nil as long as \<open>Scan\<close> has returned true).
\<close>

definition MaxScanTokenSize :: nat where
  "MaxScanTokenSize = 64 * 1024"

fun lines_of :: "string \<Rightarrow> string list" where
  "lines_of [] = []"
| "lines_of (c # cs) =
     (if c = CHR 0x0A then [] # lines_of cs
      else (case lines_of cs of [] \<Rightarrow> [[c]] | l # ls \<Rightarrow> (c # l) # ls))"

definition dropCR :: "string \<Rightarrow> string" where
  "dropCR l = (if l \<noteq> [] \<and> last l = CHR 0x0D then butlast l else l)"

fun scan_tokens :: "string list \<Rightarrow> string list \<times> error option" where
  "scan_tokens [] = ([], None)"
| "scan_tokens (l # ls) =
     (if length l \<ge> MaxScanTokenSize then ([], Some ErrTooLong)
      else (case scan_tokens ls of (ts, e) \<Rightarrow> (dropCR l # ts, e)))"

definition NewScanner :: "string \<times> error option \<Rightarrow> string list \<times> error option" where
  "NewScanner r =
     (case r of (bytes, rerr) \<Rightarrow>
        (case scan_tokens (lines_of bytes) of
           (ts, e) \<Rightarrow> (ts, if e = None then rerr else e)))"

text \<open>
  \<open>scanner.Scan(); l := scanner.Text()\<close> with the result of \<open>Scan\<close> ignored: the
  next line, or the empty string when \<open>Scan\<close> fails.
\<close>

definition Scan_Text :: "string list \<Rightarrow> string" where
  "Scan_Text ls = (case ls of [] \<Rightarrow> [] | l # _ \<Rightarrow> l)"

text \<open>\<open>bytes.NewReader(b)\<close> delivers \<open>b\<close> and then io.EOF.\<close>

definition bytes_NewReader :: "string \<Rightarrow> string \<times> error option" where
  "bytes_NewReader b = (b, None)"

section \<open>The functions of read.go\<close>

subsection \<open>findXrefEntry\<close>

fun findXrefEntry :: "XrefEntry list \<Rightarrow> int64 \<Rightarrow> int64 \<Rightarrow> error + XrefEntry" where
  "findXrefEntry [] number generation = Inl (New ''no entry found'')"
| "findXrefEntry (ent # entries) number generation =
     (if Number ent = number \<and> Generation ent = generation then Inr ent
      else findXrefEntry entries number generation)"

subsection \<open>readEntry\<close>

text \<open>
  The loop \<open>for scanner.Scan() { ... }\<close> of readEntry over the lines left, with the
  buffer \<open>b\<close>; at the end of the lines, the check of \<open>scanner.Err()\<close>.
\<close>

fun readEntry_loop :: "string list \<Rightarrow> error option \<Rightarrow> string \<Rightarrow> error + string" where
  "readEntry_loop [] err b =
     (case err of
        Some e \<Rightarrow> Inl (Errorf ''unable to read entry'' (Some e))
      | None \<Rightarrow> Inr b)"
| "readEntry_loop (l # ls) err b =
     (if EqualFold l ''endobj'' then Inr (b @ l @ [CHR 0x0A])
      else readEntry_loop ls err (b @ l @ [CHR 0x0A]))"

definition readEntry :: "XrefEntry \<Rightarrow> string \<Rightarrow> error + string" where
  "readEntry ent f =
     (case NewScanner (AtReader_stream (NewAtReader f (ByteOffset ent))) of
        (lines, err) \<Rightarrow>
          (let l = Scan_Text lines in
           if \<not> HasSuffix l ''obj'' then Inl (New ''should start with a reference object'')
           else readEntry_loop (tl lines) err (l @ [CHR 0x0A])))"

subsection \<open>readTrailer\<close>

definition findTrailerInBlock :: "string \<Rightarrow> int" where
  "findTrailerInBlock b = Index b ''trailer''"

text \<open>
  The scan loop of readTrailer over the lines left. On a line that begins with
  \<open>startxref\<close> the loop body calls \<open>scanner.Scan()\<close> itself and parses the text of the
  next line, the empty string when there is none.
\<close>

fun readTrailer_loop :: "string list \<Rightarrow> error option \<Rightarrow> Trailer \<Rightarrow> error + Trailer" where
  "readTrailer_loop [] err tr =
     (case err of
        Some e \<Rightarrow> Inl (Errorf ''unable to scan the trailer'' (Some e))
      | None \<Rightarrow> Inr tr)"
| "readTrailer_loop (l # ls) err tr =
     (if HasPrefix l ''startxref'' then
        (case ParseInt (Scan_Text ls) of
           Inl e \<Rightarrow> Inl (Errorf ''unable to parse startxref'' (Some e))
         | Inr xref \<Rightarrow> readTrailer_loop (tl ls) err (tr\<lparr>StartXref := xref\<rparr>))
      else (let n = Index l (''/Size'' @ '' '') in
            if n \<ge> 0 then
              (case ParseInt (drop (nat n + length ''/Size'' + 1) l) of
                 Inl e \<Rightarrow> Inl (Errorf ''unable to parse /Size'' (Some e))
               | Inr sz \<Rightarrow>
                   if sz = 0 then Inl (Errorf ''unable to parse /Size'' None)
                   else readTrailer_loop ls err (tr\<lparr>Size := sz\<rparr>))
            else readTrailer_loop ls err tr))"

text \<open>
  The block that readTrailer scans: a buffer of 1024 zero bytes, filled by one
  \<open>ReadAt\<close> at \<open>fsize - 1024\<close>, where \<open>fsize\<close> is the parameter \<open>size\<close> (any error but io.EOF returns), then cut at the marker
  \<open>trailer\<close> when that is found at a positive index.
\<close>

definition readTrailer_block :: "string \<Rightarrow> int64 \<Rightarrow> error + string" where
  "readTrailer_block f fsize =
     (case ReadAt f 1024 (fsize - 1024) of
        (bs, rerr) \<Rightarrow>
          if rerr \<noteq> None \<and> rerr \<noteq> Some EOF then Inl (the rerr)
          else (let buf = bs @ replicate (1024 - length bs) (CHR 0x00);
                    p = findTrailerInBlock buf
                in Inr (if p > 0 then drop (nat p) buf else buf)))"

definition readTrailer :: "string \<Rightarrow> int64 \<Rightarrow> error + Trailer" where
  "readTrailer f fsize =
     (case readTrailer_block f fsize of
        Inl e \<Rightarrow> Inl e
      | Inr buf \<Rightarrow>
          (case NewScanner (bytes_NewReader buf) of
             (lines, err) \<Rightarrow>
               readTrailer_loop lines err \<lparr>StartXref = 0, Size = 0, Raw = buf, ra = f\<rparr>))"

subsection \<open>readXrefEntry and ListXrefEntries\<close>

text \<open>
  readXrefEntry indexes \<open>entry[0]\<close>, \<open>entry[1]\<close>, \<open>entry[2]\<close> without a check of the
  length; an index beyond the slice panics.
\<close>

definition readXrefEntry :: "string list \<Rightarrow> error + XrefEntry" where
  "readXrefEntry entry =
     (if length entry \<le> 0 then Inl (PanicIndex 0 (length entry))
      else case ParseInt (entry ! 0) of
        Inl e \<Rightarrow> Inl (Errorf ''unable to read xref entry offset'' (Some e))
      | Inr offset \<Rightarrow>
          if length entry \<le> 1 then Inl (PanicIndex 1 (length entry))
          else case Atoi (entry ! 1) of
            Inl e \<Rightarrow> Inl (Errorf ''unable to read xref entry generation'' (Some e))
          | Inr generation \<Rightarrow>
              if length entry \<le> 2 then Inl (PanicIndex 2 (length entry))
              else Inr \<lparr>ByteOffset = offset, Number = 0, Generation = generation,
                         InUse = HasPrefix (entry ! (2::nat)) ''n''\<rparr>)"

text \<open>
  The local variables of the loop of ListXrefEntries; \<open>tsize\<close> below is \<open>t.Size\<close>.
\<close>

record xref_vars =
  entries :: "XrefEntry list"
  offset :: int64
  pos :: int64
  count :: int64
  total :: int64

definition xref_vars_init :: xref_vars where
  "xref_vars_init = \<lparr>entries = [], offset = 0, pos = 0, count = 0, total = 0\<rparr>"

fun ListXrefEntries_loop ::
  "int64 \<Rightarrow> string list \<Rightarrow> error option \<Rightarrow> xref_vars \<Rightarrow> error + XrefEntry list" where
  "ListXrefEntries_loop tsize [] err v =
     (case err of
        Some e \<Rightarrow> Inl (Errorf ''unable to scan the trailer'' (Some e))
      | None \<Rightarrow> Inr (entries v))"
| "ListXrefEntries_loop tsize (l # ls) err v =
     (if tsize = total v then Inr (entries v)
      else (let entry = SplitN l (CHR '' '') 3 in
        if length entry = 2 then
          (case Atoi (entry ! 0) of
             Inl e \<Rightarrow> Inl (Errorf ''unable to read xref subsection offset'' (Some e))
           | Inr off \<Rightarrow>
               (case Atoi (entry ! 1) of
                  Inl e \<Rightarrow> Inl (Errorf ''unable to read xref subsection count'' (Some e))
                | Inr cnt \<Rightarrow>
                    ListXrefEntries_loop tsize ls err (v\<lparr>offset := off, count := cnt, pos := 0\<rparr>)))
        else if pos v = count v then ListXrefEntries_loop tsize ls err v
        else (case readXrefEntry entry of
                Inl e \<Rightarrow> Inl e
              | Inr xrefEntry \<Rightarrow>
                  ListXrefEntries_loop tsize ls err
                    (v\<lparr>entries := entries v @ [xrefEntry\<lparr>Number := offset v + pos v\<rparr>],
                       pos := pos v + 1, total := total v + 1\<rparr>))))"

definition ListXrefEntries :: "Trailer \<Rightarrow> error + XrefEntry list" where
  "ListXrefEntries t =
     (case NewScanner (AtReader_stream (NewAtReader (ra t) (StartXref t))) of
        (lines, err) \<Rightarrow>
          (let l = Scan_Text lines in
           if l \<noteq> ''xref'' then Inl (New ''should be xref'')
           else ListXrefEntries_loop (Size t) (tl lines) err xref_vars_init))"

section \<open>Classical xref tables, as the specification describes them\<close>




definition spec_number_from :: "int64 \<Rightarrow> nat \<Rightarrow> XrefEntry list \<Rightarrow> XrefEntry list" where
  "spec_number_from first p xs =
     map (\<lambda>(i, x). x\<lparr>Number := first + word_of_nat i\<rparr>) (enumerate p xs)"


section \<open>Lookup\<close>

text \<open>
  C7. findXrefEntry returns the first entry in list order whose object number and
  generation both equal the pair asked for, and the error "no entry found" when
  no entry matches; it has no other outcome.
\<close>

theorem findXrefEntry_first_match:
  "findXrefEntry es number generation =
     (case find (\<lambda>e. Number e = number \<and> Generation e = generation) es of
        Some e \<Rightarrow> Inr e
      | None \<Rightarrow> Inl (New ''no entry found''))"
  by (induction es) simp_all

section \<open>Extraction of an object\<close>

lemma lines_of_line:
  "CHR 0x0A \<notin> set l \<Longrightarrow> lines_of (l @ CHR 0x0A # rest) = l # lines_of rest"
  by (induction l) auto

lemma lines_of_Nil_iff: "lines_of s = [] \<longleftrightarrow> s = []"
  by (cases s) (auto split: list.splits)

lemma readEntry_loop_no_endobj:
  "\<forall>l \<in> set ls. \<not> EqualFold l ''endobj'' \<Longrightarrow>
   readEntry_loop ls None b = Inr (b @ concat (map (\<lambda>l. l @ [CHR 0x0A]) ls))"
  by (induction ls arbitrary: b) simp_all

lemma stream_at_offset:
  "sint off = int (length pre) \<Longrightarrow>
   AtReader_stream (NewAtReader (pre @ rest) off) = (rest, None)"
  by (simp add: AtReader_stream_def NewAtReader_def)

text \<open>
  C2. An entry whose byte offset points at the bytes
  \<open>5 0 obj\<close>, \<open><< /Type /Catalog >>\<close>, \<open>endobj\<close>, each followed by a newline, gives
  exactly those bytes, whatever precedes and follows them in the file. An entry
  whose first line (the text of the first \<open>Scan\<close>) does not end with \<open>obj\<close> gives
  the error "should start with a reference object" and no bytes.
\<close>

theorem readEntry_object:
  "(sint (ByteOffset ent) = int (length pre) \<longrightarrow>
      readEntry ent (pre @ ''5 0 obj\<newline><< /Type /Catalog >>\<newline>endobj\<newline>'' @ post)
        = Inr ''5 0 obj\<newline><< /Type /Catalog >>\<newline>endobj\<newline>'') \<and>
   (\<not> HasSuffix (Scan_Text (fst (NewScanner (AtReader_stream (NewAtReader f (ByteOffset ent)))))) ''obj'' \<longrightarrow>
      readEntry ent f = Inl (New ''should start with a reference object''))"
proof (intro conjI impI)
  assume off: "sint (ByteOffset ent) = int (length pre)"
  obtain ts e where ts: "scan_tokens (lines_of post) = (ts, e)"
    by (cases "scan_tokens (lines_of post)")
  have l1: "lines_of (''5 0 obj\<newline><< /Type /Catalog >>\<newline>endobj\<newline>'' @ post)
            = ''5 0 obj'' # ''<< /Type /Catalog >>'' # ''endobj'' # lines_of post"
    using lines_of_line [of "''5 0 obj''" "''<< /Type /Catalog >>\<newline>endobj\<newline>'' @ post"]
          lines_of_line [of "''<< /Type /Catalog >>''" "''endobj\<newline>'' @ post"]
          lines_of_line [of "''endobj''" post]
    by simp
  have sc: "NewScanner (''5 0 obj\<newline><< /Type /Catalog >>\<newline>endobj\<newline>'' @ post, None)
            = (''5 0 obj'' # ''<< /Type /Catalog >>'' # ''endobj'' # ts, e)"
    unfolding NewScanner_def l1
    by (simp add: ts MaxScanTokenSize_def dropCR_def)
  show "readEntry ent (pre @ ''5 0 obj\<newline><< /Type /Catalog >>\<newline>endobj\<newline>'' @ post)
        = Inr ''5 0 obj\<newline><< /Type /Catalog >>\<newline>endobj\<newline>''"
    unfolding readEntry_def stream_at_offset [OF off] sc
    by (simp add: Scan_Text_def HasSuffix_def suffix_to_prefix EqualFold_def toLower_def)
next
  assume "\<not> HasSuffix (Scan_Text (fst (NewScanner (AtReader_stream (NewAtReader f (ByteOffset ent)))))) ''obj''"
  then show "readEntry ent f = Inl (New ''should start with a reference object'')"
    by (cases "NewScanner (AtReader_stream (NewAtReader f (ByteOffset ent)))")
       (simp add: readEntry_def)
qed

theorem readEntry_object_witness:
  "readEntry \<lparr>ByteOffset = 3, Number = 5, Generation = 0, InUse = True\<rparr>
      (''%%%'' @ ''5 0 obj\<newline><< /Type /Catalog >>\<newline>endobj\<newline>'' @ ''7 0 obj'')
     = Inr ''5 0 obj\<newline><< /Type /Catalog >>\<newline>endobj\<newline>'' \<and>
   readEntry \<lparr>ByteOffset = 0, Number = 5, Generation = 0, InUse = True\<rparr> ''xref\<newline>0 1\<newline>''
     = Inl (New ''should start with a reference object'')"
  using readEntry_object [where ent = "\<lparr>ByteOffset = 3, Number = 5, Generation = 0, InUse = True\<rparr>"
          and pre = "''%%%''" and post = "''7 0 obj''"]
        readEntry_object [where f = "''xref\<newline>0 1\<newline>''"
          and ent = "\<lparr>ByteOffset = 0, Number = 5, Generation = 0, InUse = True\<rparr>"]
  by (simp add: NewScanner_def AtReader_stream_def NewAtReader_def MaxScanTokenSize_def dropCR_def Scan_Text_def HasSuffix_def suffix_to_prefix)

text \<open>
  C9. When the first line ends with \<open>obj\<close> and the scanner reaches the end of the data
  (\<open>Err\<close> is nil) without a line that \<open>EqualFold\<close> matches with \<open>endobj\<close>, readEntry
  returns, without error, every line read so far, each followed by a newline: the
  truncated object.
\<close>

theorem readEntry_truncated:
  assumes "NewScanner (AtReader_stream (NewAtReader f (ByteOffset ent))) = (l # ls, None)"
    and "HasSuffix l ''obj''"
    and "\<forall>x \<in> set ls. \<not> EqualFold x ''endobj''"
  shows "readEntry ent f = Inr (concat (map (\<lambda>x. x @ [CHR 0x0A]) (l # ls)))"
  using assms by (simp add: readEntry_def Scan_Text_def readEntry_loop_no_endobj)

theorem readEntry_truncated_witness:
  "readEntry \<lparr>ByteOffset = 2, Number = 5, Generation = 0, InUse = True\<rparr> ''%%5 0 obj\<newline><< /Type'' = Inr ''5 0 obj\<newline><< /Type\<newline>''"
  using readEntry_truncated [where f = "''%%5 0 obj\<newline><< /Type''"
          and ent = "\<lparr>ByteOffset = 2, Number = 5, Generation = 0, InUse = True\<rparr>"
          and l = "''5 0 obj''" and ls = "[''<< /Type'']"]
  by (simp add: NewScanner_def AtReader_stream_def NewAtReader_def MaxScanTokenSize_def dropCR_def HasSuffix_def suffix_to_prefix EqualFold_def toLower_def)


section \<open>The xref table\<close>

subsection \<open>One step of the loop\<close>

lemma loop_break:
  "tsize = total v \<Longrightarrow> ListXrefEntries_loop tsize (l # ls) err v = Inr (entries v)"
  by simp


lemma loop_skip:
  "tsize \<noteq> total v \<Longrightarrow> length (SplitN l (CHR '' '') 3) \<noteq> 2 \<Longrightarrow> pos v = count v \<Longrightarrow>
   ListXrefEntries_loop tsize (l # ls) err v = ListXrefEntries_loop tsize ls err v"
  by (simp add: Let_def)


declare ListXrefEntries_loop.simps(2) [simp del]

lemma SplitN_2:
  "SplitN s sep 2 =
     (if sep \<in> set s
      then [takeWhile (\<lambda>c. c \<noteq> sep) s, tl (dropWhile (\<lambda>c. c \<noteq> sep) s)] else [s])"
  by (simp add: numeral_2_eq_2)

lemma SplitN_3:
  "SplitN s sep 3 =
     (if sep \<in> set s
      then takeWhile (\<lambda>c. c \<noteq> sep) s # SplitN (tl (dropWhile (\<lambda>c. c \<noteq> sep) s)) sep 2
      else [s])"
  by (simp add: numeral_3_eq_3 numeral_2_eq_2)







lemma length_spec_number_from [simp]: "length (spec_number_from f p xs) = length xs"
  by (simp add: spec_number_from_def)




lemma ListXrefEntries_lines:
  "NewScanner (AtReader_stream (NewAtReader (ra t) (StartXref t))) = (''xref'' # ls, err) \<Longrightarrow>
   ListXrefEntries t = ListXrefEntries_loop (Size t) ls err xref_vars_init"
  by (simp add: ListXrefEntries_def Scan_Text_def)


lemma loop_at_most:
  "total v = word_of_nat (length (entries v)) \<Longrightarrow> length (entries v) \<le> unat tsize \<Longrightarrow>
   ListXrefEntries_loop tsize ls err v = Inr es \<Longrightarrow> length es \<le> unat tsize"
proof (induction ls arbitrary: v)
  case Nil
  then show ?case by (auto split: option.splits)
next
  case (Cons l ls)
  show ?case
  proof (cases "tsize = total v")
    case True
    with Cons.prems show ?thesis by (simp add: loop_break)
  next
    case False
    have lt: "length (entries v) < unat tsize"
    proof (rule ccontr)
      assume "\<not> length (entries v) < unat tsize"
      with Cons.prems(2) have "length (entries v) = unat tsize" by simp
      with Cons.prems(1) False show False by simp
    qed
    from Cons.prems(3) False show ?thesis
      apply (simp add: ListXrefEntries_loop.simps(2) Let_def split: if_splits sum.splits)
      subgoal using Cons.IH [of "v\<lparr>offset := _, count := _, pos := 0\<rparr>"] Cons.prems(1,2) by simp
      subgoal using Cons.IH [of v] Cons.prems(1,2) by simp
      subgoal for x
        using Cons.IH [of "v\<lparr>entries := entries v @ [x\<lparr>Number := offset v + pos v\<rparr>],
                             pos := pos v + 1, total := total v + 1\<rparr>"] Cons.prems(1) lt by simp
      done
  qed
qed

lemma loop_stop:
  "total v = word_of_nat (length (entries v)) \<Longrightarrow>
   ListXrefEntries_loop tsize pre None v = Inr es \<Longrightarrow> length es = unat tsize \<Longrightarrow>
   ListXrefEntries_loop tsize (pre @ l # post) err v = Inr es"
proof (induction pre arbitrary: v)
  case Nil
  then have "tsize = total v" by auto
  with Nil show ?case by (simp add: loop_break)
next
  case (Cons x xs)
  show ?case
  proof (cases "tsize = total v")
    case True
    with Cons.prems show ?thesis by (simp add: loop_break)
  next
    case False
    from Cons.prems(2) False show ?thesis
      apply (simp add: ListXrefEntries_loop.simps(2) Let_def split: if_splits sum.splits)
      subgoal using Cons.IH [of "v\<lparr>offset := _, count := _, pos := 0\<rparr>"] Cons.prems(1,3) by simp
      subgoal using Cons.IH [of v] Cons.prems(1,3) by simp
      subgoal for y
        using Cons.IH [of "v\<lparr>entries := entries v @ [y\<lparr>Number := offset v + pos v\<rparr>],
                             pos := pos v + 1, total := total v + 1\<rparr>"] Cons.prems(1,3) by simp
      done
  qed
qed


lemma loop_skip_all:
  "\<forall>l \<in> set pre. length (SplitN l (CHR '' '') 3) \<noteq> 2 \<Longrightarrow> pos v = count v \<Longrightarrow>
   tsize \<noteq> total v \<Longrightarrow>
   ListXrefEntries_loop tsize (pre @ rest) err v = ListXrefEntries_loop tsize rest err v"
  by (induction pre) (simp_all add: loop_skip)

lemma SplitN_no_sep: "sep \<notin> set l \<Longrightarrow> SplitN l sep 3 = [l]"
  by (simp add: SplitN_3)

subsection \<open>Object numbers\<close>




subsection \<open>Entry lines before the first subsection header\<close>

text \<open>
  C10. Lines with three fields between the line \<open>xref\<close> and what follows them are
  skipped while the count of the current subsection is still the initial zero: the
  loop goes on with the rest of the lines and its initial variables (no entry, total
  zero), and no error is raised for them. With \<open>Size = 0\<close> the first of these lines
  ends the loop, again with no entry and no error.
\<close>

theorem ListXrefEntries_skips_before_first_header:
  assumes "NewScanner (AtReader_stream (NewAtReader (ra t) (StartXref t))) =
             (''xref'' # pre @ rest, err)"
    and "\<forall>l \<in> set pre. length (SplitN l (CHR '' '') 3) = 3"
  shows "ListXrefEntries t =
           (if Size t = 0 \<and> pre \<noteq> [] then Inr []
            else ListXrefEntries_loop (Size t) rest err xref_vars_init)"
proof (cases "Size t = 0")
  case True
  then show ?thesis unfolding ListXrefEntries_lines [OF assms(1)]
    by (cases pre) (simp_all add: xref_vars_init_def loop_break)
next
  case False
  have "\<forall>l \<in> set pre. length (SplitN l (CHR '' '') 3) \<noteq> 2" using assms(2) by simp
  then show ?thesis unfolding ListXrefEntries_lines [OF assms(1)] using False
    by (simp add: loop_skip_all xref_vars_init_def)
qed

theorem ListXrefEntries_skips_before_first_header_witness:
  "ListXrefEntries \<lparr>StartXref = 0, Size = 1, Raw = [],
      ra = ''xref\<newline>0000000017 00000 n \<newline>0000000081 00000 n \<newline>0 1\<newline>0000000000 65535 f \<newline>''\<rparr>
   = Inr [\<lparr>ByteOffset = 0, Number = 0, Generation = 65535, InUse = False\<rparr>]"
  using ListXrefEntries_skips_before_first_header [where
      t = "\<lparr>StartXref = 0, Size = 1, Raw = [],
      ra = ''xref\<newline>0000000017 00000 n \<newline>0000000081 00000 n \<newline>0 1\<newline>0000000000 65535 f \<newline>''\<rparr>"
      and pre = "[''0000000017 00000 n '', ''0000000081 00000 n '']"
      and rest = "[''0 1'', ''0000000000 65535 f '']" and err = None]
  by (simp add: NewScanner_def AtReader_stream_def NewAtReader_def MaxScanTokenSize_def dropCR_def
        SplitN_3 SplitN_2 Atoi_def ParseInt_def ParseUint_def isDigit_def digitVal_def
        readXrefEntry_def HasPrefix_def xref_vars_init_def ListXrefEntries_loop.simps(2))


subsection \<open>Lines without a space\<close>

text \<open>
  A line without a space after the line \<open>xref\<close>, before any header: the count is
  zero, the line is skipped, and no error is reported.
\<close>

theorem ListXrefEntries_line_without_space_counterexample:
  "ListXrefEntries \<lparr>StartXref = 0, Size = 1, Raw = [], ra = ''xref\<newline>garbage\<newline>''\<rparr> = Inr []"
  by (simp add: ListXrefEntries_def NewScanner_def AtReader_stream_def NewAtReader_def
        MaxScanTokenSize_def dropCR_def Scan_Text_def SplitN_3 SplitN_2 xref_vars_init_def
        ListXrefEntries_loop.simps(2))

text \<open>
  C4, as the loop has it. A line without a space splits into one piece. When the
  current subsection is complete (\<open>pos = count\<close>, as before the first header) the
  loop skips the line silently. Otherwise readXrefEntry parses the whole line as the
  offset, and a line that is no base-10 integer gives the error
  "unable to read xref entry offset".
\<close>

theorem ListXrefEntries_line_without_space:
  assumes "CHR '' '' \<notin> set l" and "tsize \<noteq> total v"
  shows "(pos v = count v \<longrightarrow>
            ListXrefEntries_loop tsize (l # ls) err v = ListXrefEntries_loop tsize ls err v) \<and>
         (pos v \<noteq> count v \<longrightarrow> ParseInt l = Inl e \<longrightarrow>
            ListXrefEntries_loop tsize (l # ls) err v =
              Inl (Errorf ''unable to read xref entry offset'' (Some e)))"
  using assms
  by (simp add: ListXrefEntries_loop.simps(2) SplitN_no_sep readXrefEntry_def)

theorem ListXrefEntries_line_without_space_witness:
  "ListXrefEntries_loop 2 [''%%EOF'', ''0 1''] None xref_vars_init =
     ListXrefEntries_loop 2 [''0 1''] None xref_vars_init \<and>
   ListXrefEntries_loop 2 [''trailer''] None (xref_vars_init\<lparr>count := 1\<rparr>) =
     Inl (Errorf ''unable to read xref entry offset'' (Some ErrSyntax))"
  using ListXrefEntries_line_without_space [where l = "''%%EOF''" and tsize = 2
          and v = xref_vars_init and ls = "[''0 1'']" and err = None]
        ListXrefEntries_line_without_space [where l = "''trailer''" and tsize = 2
          and v = "xref_vars_init\<lparr>count := 1\<rparr>" and ls = "[]" and err = None and e = ErrSyntax]
  by (simp add: xref_vars_init_def ParseInt_def ParseUint_def isDigit_def)

text \<open>
  The remaining case: inside a subsection, a line without a space that is a
  base-10 integer passes the parse of \<open>entry[0]\<close>, and \<open>entry[1]\<close> is out of range.
\<close>

lemma ListXrefEntries_index_panic:
  "ListXrefEntries \<lparr>StartXref = 0, Size = 1, Raw = [], ra = ''xref\<newline>0 1\<newline>123\<newline>''\<rparr> = Inl (PanicIndex 1 1)"
  by (simp add: ListXrefEntries_def NewScanner_def AtReader_stream_def NewAtReader_def
        MaxScanTokenSize_def dropCR_def Scan_Text_def SplitN_3 SplitN_2 xref_vars_init_def
        ListXrefEntries_loop.simps(2) Atoi_def ParseInt_def ParseUint_def isDigit_def digitVal_def
        readXrefEntry_def)


end
